theory Spec2Isabelle
  imports Complex_Main "HOL-Library.Sublist"
begin

section \<open>Characters and C strings\<close>

text \<open>
  The buffers of \<^verbatim>\<open>struct ndiff\<close> are C character arrays holding a
  NUL-terminated line. A buffer is modelled by the bytes of the array from
  index 0 on, as far as the program has written them: the terminating NUL of
  the current line is a byte of the list, and the bytes after it are what an
  earlier, longer line has left there. The bytes of the array that were never
  written are indeterminate in C; reading at or after the end of the list
  gives NUL. \<open>cstr\<close> is the C string an array holds, \<open>strlen\<close> its length.
\<close>

definition NUL :: char where
  "NUL = CHR 0x00"

definition peek :: "string \<Rightarrow> nat \<Rightarrow> char" where
  "peek buf i = (if i < length buf then buf ! i else NUL)"

definition cstr :: "string \<Rightarrow> string" where
  "cstr buf = takeWhile (\<lambda>c. c \<noteq> NUL) buf"

definition strlen :: "string \<Rightarrow> nat" where
  "strlen buf = length (cstr buf)"

text \<open>
  \<^verbatim>\<open>buf[0] = 0\<close> leaves the rest of the array as it is; \<^verbatim>\<open>memcpy(dst, src, n)\<close>
  overwrites the first \<open>n\<close> bytes of the destination and keeps its tail.
\<close>

definition poke0 :: "string \<Rightarrow> string" where
  "poke0 buf = (case buf of [] \<Rightarrow> [NUL] | x # xs \<Rightarrow> NUL # xs)"

definition memcpy :: "string \<Rightarrow> string \<Rightarrow> nat \<Rightarrow> string" where
  "memcpy dst src n = take n src @ drop n dst"

text \<open>The \<^verbatim>\<open>ctype.h\<close> predicates in the C locale.\<close>

definition isdigit :: "char \<Rightarrow> bool" where
  "isdigit c = (c \<in> set ''0123456789'')"

definition isxdigit :: "char \<Rightarrow> bool" where
  "isxdigit c = (c \<in> set ''0123456789abcdefABCDEF'')"

definition isblank :: "char \<Rightarrow> bool" where
  "isblank c = (c = CHR '' '' \<or> c = CHR 0x09)"

definition isspace :: "char \<Rightarrow> bool" where
  "isspace c = (c = CHR '' '' \<or> (9 \<le> (of_char c :: nat) \<and> (of_char c :: nat) \<le> 13))"

definition ispunct :: "char \<Rightarrow> bool" where
  "ispunct c = (let n = (of_char c :: nat) in
     (33 \<le> n \<and> n \<le> 47) \<or> (58 \<le> n \<and> n \<le> 64) \<or>
     (91 \<le> n \<and> n \<le> 96) \<or> (123 \<le> n \<and> n \<le> 126))"

definition is_sign :: "char \<Rightarrow> bool" where
  "is_sign c = (c = CHR ''-'' \<or> c = CHR ''+'')"

text \<open>
  \<^verbatim>\<open>while (P(buf[i])) i++;\<close> for a predicate that is false on NUL: the
  index after the run of bytes satisfying \<open>P\<close> that starts at \<open>i\<close>.
\<close>

definition scan :: "(char \<Rightarrow> bool) \<Rightarrow> string \<Rightarrow> nat \<Rightarrow> nat" where
  "scan P buf i = i + length (takeWhile P (drop i buf))"

section \<open>The number lexer\<close>

text \<open>
  \<^verbatim>\<open>parse_number (char *buf, int *d_, int *n_, int *e_, int *f_)\<close> works on the
  text that starts at the cursor. The result carries the returned length, the
  values stored through the four out-pointers and the text after the in-place
  rewriting of the exponent marker. When the literal is rejected the function
  returns 0 before it writes the out-parameters; the record then holds the
  zeros the caller initialised them with.
\<close>

record pnum =
  len :: nat
  dot :: int
  ndig :: nat
  expo :: int
  is_real :: bool
  text_out :: string

definition is_expmark :: "char \<Rightarrow> bool" where
  "is_expmark c = (c = CHR ''e'' \<or> c = CHR ''E'' \<or> c = CHR ''d'' \<or> c = CHR ''D'')"

definition parse_exponent :: "string \<Rightarrow> nat \<Rightarrow> nat \<times> nat \<times> string" where
  "parse_exponent buf i =
     (if is_expmark (peek buf i) then
        (let c = peek buf i;
             buf1 = buf[i := CHR ''e''];
             e = i + 1;
             j = (if is_sign (peek buf1 e) then e + 1 else e);
             k = scan isdigit buf1 j
         in if \<not> isdigit (peek buf1 (k - 1)) then (e - 1, 0, buf1[e - 1 := c])
            else (k, e, buf1))
      else (i, 0, buf))"

definition parse_number :: "string \<Rightarrow> pnum" where
  "parse_number buf =
     (let i0 = (if is_sign (peek buf 0) then 1 else 0);
          i1 = scan (\<lambda>c. c = CHR ''0'') buf i0;
          i2 = scan isdigit buf i1;
          d = (if peek buf i2 = CHR ''.'' then i2 + 1 else 0);
          i3 = (if peek buf i2 = CHR ''.'' then i2 + 1 else i2);
          i4 = (if d \<noteq> 0 \<and> i2 = i1 then scan (\<lambda>c. c = CHR ''0'') buf i3 else i3);
          i5 = (if d \<noteq> 0 then scan isdigit buf i4 else i4);
          n = (i2 - i1) + (i5 - i4)
      in if \<not> (0 < i5 \<and> (isdigit (peek buf (i5 - 1)) \<or> (1 < i5 \<and> isdigit (peek buf (i5 - 2)))))
         then \<lparr>len = 0, dot = 0, ndig = 0, expo = 0, is_real = False, text_out = buf\<rparr>
         else (case parse_exponent buf i5 of (i, e, buf') \<Rightarrow>
                 \<lparr>len = i, dot = int d - 1, ndig = n, expo = int e - 1,
                  is_real = (0 < d \<or> 0 < e), text_out = buf'\<rparr>))"

section \<open>The bytes strtod consumes\<close>

text \<open>
  \<^verbatim>\<open>strtod\<close> belongs to the C library, not to this program. \<^verbatim>\<open>ndiff_testNum\<close>
  only compares the end pointer it reports with the length of the lexer, so
  the model below gives the number of bytes consumed, following the subject
  sequence of ISO C99 (7.20.1.3) in the C locale: white space, an optional
  sign, then a hexadecimal form (\<^verbatim>\<open>0x\<close>, hexadecimal digits with an optional
  point, optional binary exponent), a decimal form (digits with an optional
  point, optional exponent), or one of \<^verbatim>\<open>inf\<close>, \<^verbatim>\<open>infinity\<close>, \<^verbatim>\<open>nan\<close>,
  \<^verbatim>\<open>nan(...)\<close>. Nothing is consumed when no form matches.
\<close>

definition exp_len :: "(char \<Rightarrow> bool) \<Rightarrow> string \<Rightarrow> nat" where
  "exp_len mark s =
     (if s \<noteq> [] \<and> mark (hd s) then
        (let sg = (if is_sign (peek s 1) then 1 else 0);
             k = length (takeWhile isdigit (drop (1 + sg) s))
         in if k = 0 then 0 else 1 + sg + k)
      else 0)"

definition mantissa_len :: "(char \<Rightarrow> bool) \<Rightarrow> string \<Rightarrow> nat \<times> nat" where
  "mantissa_len dig s =
     (let a = length (takeWhile dig s);
          pt = (peek s a = CHR ''.'');
          b = (if pt then length (takeWhile dig (drop (a + 1) s)) else 0)
      in (a + b, a + (if pt then 1 + b else 0)))"

definition dec_len :: "string \<Rightarrow> nat" where
  "dec_len s =
     (case mantissa_len isdigit s of (digits, m) \<Rightarrow>
        if digits = 0 then 0
        else m + exp_len (\<lambda>c. c = CHR ''e'' \<or> c = CHR ''E'') (drop m s))"

definition hex_len :: "string \<Rightarrow> nat" where
  "hex_len s =
     (if peek s 0 = CHR ''0'' \<and> (peek s 1 = CHR ''x'' \<or> peek s 1 = CHR ''X'') then
        (case mantissa_len isxdigit (drop 2 s) of (digits, m) \<Rightarrow>
           if digits = 0 then 0
           else 2 + m + exp_len (\<lambda>c. c = CHR ''p'' \<or> c = CHR ''P'') (drop (2 + m) s))
      else 0)"

definition lower :: "char \<Rightarrow> char" where
  "lower c = (let n = (of_char c :: nat) in if 65 \<le> n \<and> n \<le> 90 then char_of (n + 32) else c)"

definition is_nchar :: "char \<Rightarrow> bool" where
  "is_nchar c = (isdigit c \<or> c = CHR ''_'' \<or>
     (let n = (of_char (lower c) :: nat) in 97 \<le> n \<and> n \<le> 122))"

definition special_len :: "string \<Rightarrow> nat" where
  "special_len s =
     (if map lower (take 8 s) = ''infinity'' then 8
      else if map lower (take 3 s) = ''inf'' then 3
      else if map lower (take 3 s) = ''nan'' then
        (let k = length (takeWhile is_nchar (drop 4 s))
         in if peek s 3 = CHR ''('' \<and> peek s (4 + k) = CHR '')'' then 5 + k else 3)
      else 0)"

definition strtod_len :: "string \<Rightarrow> nat" where
  "strtod_len s =
     (let t = cstr s;
          w = length (takeWhile isspace t);
          sg = (if is_sign (peek t w) then 1 else 0);
          u = drop (w + sg) t;
          k = (if 0 < hex_len u then hex_len u
               else if 0 < dec_len u then dec_len u
               else special_len u)
      in if k = 0 then 0 else w + sg + k)"

section \<open>Rules and the diff state\<close>

text \<open>
  Modelled from the spec: the flags of \<^verbatim>\<open>enum eps_cmd\<close>, whose declaring
  header is missing. The command of a rule is a bit mask over them. Each flag
  is one bit, so the mask is modelled as the set of its flags:
  \<^verbatim>\<open>cmd & eps_abs\<close> is membership, \<^verbatim>\<open>ret |= eps_abs\<close> is insertion and \<^verbatim>\<open>!ret\<close>
  is emptiness. \<open>eps_dra\<close> is the mask of the three tolerance axes.
\<close>

datatype eps_cmd =
    eps_skip | eps_goto | eps_gonum | eps_equ | eps_ign | eps_abs | eps_rel
  | eps_dig | eps_any | eps_omit | eps_istr | eps_lhs | eps_rhs | eps_swap
  | eps_save | eps_nofail | eps_onfail | eps_trace | eps_traceR | eps_sgg

definition eps_dra :: "eps_cmd set" where
  "eps_dra = {eps_dig, eps_rel, eps_abs}"

text \<open>
  The fields of \<^verbatim>\<open>c->eps\<close> that the engine reads. The bounds are named
  \<open>e_abs\<close>, \<open>e_abs_lo\<close> (for \<^verbatim>\<open>abs\<close>, \<^verbatim>\<open>_abs\<close>) and so on, register
  indirections \<open>abs_reg\<close>, \<open>abs_lo_reg\<close> (for \<^verbatim>\<open>abs_reg\<close>, \<^verbatim>\<open>_abs_reg\<close>);
  the register program \<^verbatim>\<open>dst[], src[], src2[], op[]\<close> of length \<^verbatim>\<open>op_n\<close> is the
  list \<open>prog\<close> of its quadruples.
\<close>

record 'd constraint =
  cmd :: "eps_cmd set"
  tag :: string
  e_lhs :: 'd
  e_rhs :: 'd
  e_scl :: 'd
  e_off :: 'd
  e_abs :: 'd
  e_abs_lo :: 'd
  e_rel :: 'd
  e_rel_lo :: 'd
  e_dig :: 'd
  e_dig_lo :: 'd
  lhs_reg :: int
  rhs_reg :: int
  scl_reg :: int
  off_reg :: int
  abs_reg :: int
  abs_lo_reg :: int
  rel_reg :: int
  rel_lo_reg :: int
  dig_reg :: int
  dig_lo_reg :: int
  prog :: "(int \<times> int \<times> int \<times> int) list"

text \<open>
  An input stream is the bytes not yet read together with its end-of-file
  indicator.
\<close>

record stream =
  pending :: string
  at_eof :: bool

text \<open>
  \<^verbatim>\<open>struct ndiff\<close>. The C \<^verbatim>\<open>int\<close> counters are unbounded integers (signed
  overflow is undefined in C and is not modelled), the cursors are naturals,
  \<open>cxt\<close> stands for the context object the structure points to. A freed or
  null buffer is the empty list.
\<close>

record ('d, 'x) ndiff =
  lhs_f :: stream
  rhs_f :: stream
  row_i :: int
  col_i :: int
  cxt :: 'x
  reg :: "'d list"
  reg_n :: int
  blank :: int
  check :: int
  cnt_i :: int
  max_i :: int
  num_i :: int
  lhs_i :: nat
  rhs_i :: nat
  buf_n :: int
  lhs_b :: string
  rhs_b :: string

text \<open>
  The ways the program stops itself: a failed \<^verbatim>\<open>assert\<close>, a failed \<^verbatim>\<open>ensure\<close>,
  and the call of \<^verbatim>\<open>error\<close> that ends \<^verbatim>\<open>ndiff_error\<close>.
\<close>

datatype fatal = Assertion_failed | Ensure_failed | Error_exit

section \<open>Construction, reset and options\<close>

definition ndiff_reset_buf :: "('d, 'x) ndiff \<Rightarrow> ('d, 'x) ndiff" where
  "ndiff_reset_buf dif =
     dif\<lparr>lhs_i := 0, rhs_i := 0, lhs_b := poke0 (lhs_b dif), rhs_b := poke0 (rhs_b dif)\<rparr>"

text \<open>
  \<^verbatim>\<open>ndiff_setup\<close>; \<open>REG_MAX\<close> comes from the register header and is a
  parameter. Allocation is taken to succeed (its failure is fatal in the
  source). Of each new buffer only byte 0 is written. Every member that the
  compound literal does not name is zero.
\<close>

definition min_alloc :: int where
  "min_alloc = 65536"

definition min_regs :: int where
  "min_regs = 99"

definition ndiff_setup :: "int \<Rightarrow> ('d::zero, 'x) ndiff \<Rightarrow> int \<Rightarrow> int \<Rightarrow> ('d, 'x) ndiff" where
  "ndiff_setup REG_MAX dif n r =
     (let n1 = (if n < min_alloc then min_alloc else n);
          r1 = (if r < min_regs then min_regs else r);
          r2 = (if r1 > REG_MAX then REG_MAX else r1)
      in \<lparr>lhs_f = lhs_f dif, rhs_f = rhs_f dif, row_i = 0, col_i = 0,
          cxt = cxt dif, reg = replicate (nat r2) 0, reg_n = r2,
          blank = blank dif, check = check dif, cnt_i = 0, max_i = max_i dif,
          num_i = 0, lhs_i = 0, rhs_i = 0, buf_n = n1, lhs_b = [NUL], rhs_b = [NUL]\<rparr>)"

definition ndiff_teardown :: "('d, 'x) ndiff \<Rightarrow> ('d, 'x) ndiff" where
  "ndiff_teardown dif =
     \<lparr>lhs_f = lhs_f dif, rhs_f = rhs_f dif, row_i = 0, col_i = 0,
      cxt = cxt dif, reg = [], reg_n = 0,
      blank = blank dif, check = check dif, cnt_i = 0, max_i = 0,
      num_i = 0, lhs_i = 0, rhs_i = 0, buf_n = 0, lhs_b = [], rhs_b = []\<rparr>"

definition ndiff_alloc ::
  "int \<Rightarrow> stream \<Rightarrow> stream \<Rightarrow> 'x \<Rightarrow> int \<Rightarrow> int \<Rightarrow> ('d::zero, 'x) ndiff" where
  "ndiff_alloc REG_MAX lf rf cx n r =
     ndiff_setup REG_MAX
       \<lparr>lhs_f = lf, rhs_f = rf, row_i = 0, col_i = 0, cxt = cx, reg = [], reg_n = 0,
        blank = 0, check = 0, cnt_i = 0, max_i = 0, num_i = 0, lhs_i = 0, rhs_i = 0,
        buf_n = 0, lhs_b = [], rhs_b = []\<rparr> n r"

definition ndiff_clear :: "int \<Rightarrow> ('d::zero, 'x) ndiff \<Rightarrow> ('d, 'x) ndiff" where
  "ndiff_clear REG_MAX dif =
     (let rn = reg_n dif in ndiff_setup REG_MAX (ndiff_teardown dif) 0 rn)"

text \<open>
  \<^verbatim>\<open>ndiff_option\<close>: each pointer argument is optional; the final \<^verbatim>\<open>ensure\<close>
  stops the program unless the cap is positive.
\<close>

definition ndiff_option ::
  "('d, 'x) ndiff \<Rightarrow> int option \<Rightarrow> int option \<Rightarrow> int option \<Rightarrow> fatal + ('d, 'x) ndiff" where
  "ndiff_option dif keep blank' check' =
     (let d1 = (case keep of Some k \<Rightarrow> dif\<lparr>max_i := k\<rparr> | None \<Rightarrow> dif);
          d2 = (case blank' of Some b \<Rightarrow> d1\<lparr>blank := b\<rparr> | None \<Rightarrow> d1);
          d3 = (case check' of Some c \<Rightarrow> d2\<lparr>check := c\<rparr> | None \<Rightarrow> d2)
      in if max_i d3 > 0 then Inr d3 else Inl Ensure_failed)"

section \<open>What the engine takes from outside\<close>

text \<open>
  The engine calls the C library (\<^verbatim>\<open>strtod\<close>, \<^verbatim>\<open>fabs\<close>, \<^verbatim>\<open>fmin\<close>), the
  arithmetic of \<^verbatim>\<open>double\<close>, and helpers of other modules of the program whose
  code is not at hand: \<^verbatim>\<open>pow10\<close>, \<^verbatim>\<open>reg_eval\<close>, the context and the global
  \<^verbatim>\<open>option.chr\<close>. They are parameters, collected in one record. The type \<open>'d\<close>
  stands for \<^verbatim>\<open>double\<close>; \<open>0\<close> and \<open>1\<close> are its constants \<^verbatim>\<open>0.0\<close> and \<^verbatim>\<open>1.0\<close>;
  \<open>fgt\<close> and \<open>flt\<close> are its comparisons greater-than and less-than. The context
  functions take the context and give back the one they leave behind; a null
  rule is \<open>None\<close>. The text of warnings and traces is not modelled.
\<close>

record ('d, 'x) env =
  option_chr :: string
  strtod :: "string \<Rightarrow> 'd"
  pow10 :: "int \<Rightarrow> 'd"
  fabs :: "'d \<Rightarrow> 'd"
  fmin :: "'d \<Rightarrow> 'd \<Rightarrow> 'd"
  fneg :: "'d \<Rightarrow> 'd"
  fadd :: "'d \<Rightarrow> 'd \<Rightarrow> 'd"
  fsub :: "'d \<Rightarrow> 'd \<Rightarrow> 'd"
  fmul :: "'d \<Rightarrow> 'd \<Rightarrow> 'd"
  fdiv :: "'d \<Rightarrow> 'd \<Rightarrow> 'd"
  fgt :: "'d \<Rightarrow> 'd \<Rightarrow> bool"
  flt :: "'d \<Rightarrow> 'd \<Rightarrow> bool"
  reg_eval :: "'d list \<Rightarrow> int \<Rightarrow> int \<Rightarrow> int \<Rightarrow> int \<Rightarrow> int \<Rightarrow> 'd list"
  context_getInc :: "'x \<Rightarrow> int \<Rightarrow> int \<Rightarrow> 'd constraint option \<times> 'x"
  context_getAt :: "'x \<Rightarrow> int \<Rightarrow> int \<Rightarrow> 'd constraint option"
  context_onfail :: "'x \<Rightarrow> 'd constraint \<Rightarrow> 'x"

text \<open>
  Modelled from the spec: \<^verbatim>\<open>reg_getval\<close> and \<^verbatim>\<open>reg_setval\<close> of the register
  module, whose code is missing. The read gives \<open>R[i]\<close> when \<open>1 \<le> i \<le> n\<close> and
  the fallback otherwise; the write is checked against the same bounds.
\<close>

definition reg_getval :: "'d list \<Rightarrow> int \<Rightarrow> int \<Rightarrow> 'd \<Rightarrow> 'd" where
  "reg_getval rs n i dflt = (if 1 \<le> i \<and> i \<le> n then rs ! nat i else dflt)"

definition reg_setval :: "'d list \<Rightarrow> int \<Rightarrow> int \<Rightarrow> 'd \<Rightarrow> 'd list" where
  "reg_setval rs n i v = (if 1 \<le> i \<and> i \<le> n then rs[nat i := v] else rs)"

definition imax :: "int \<Rightarrow> int \<Rightarrow> int" where
  "imax a b = (if a > b then a else b)"

section \<open>Omission by tag\<close>

text \<open>
  \<^verbatim>\<open>is_valid_omit\<close> walks the tag backwards together with the bytes before the
  two cursors. It answers true as soon as the tag or either buffer is
  exhausted, false at the first byte that differs from the tag.
\<close>

fun omit_loop :: "string \<Rightarrow> string \<Rightarrow> nat \<Rightarrow> string \<Rightarrow> nat \<Rightarrow> bool" where
  "omit_loop [] lb i rb j = True"
| "omit_loop (p # ps) lb i rb j =
     (if i = 0 then True
      else if j = 0 then True
      else if p \<noteq> peek lb (i - 1) \<or> p \<noteq> peek rb (j - 1) then False
      else omit_loop ps lb (i - 1) rb (j - 1))"

definition is_valid_omit :: "nat \<Rightarrow> nat \<Rightarrow> ('d, 'x) ndiff \<Rightarrow> string \<Rightarrow> bool" where
  "is_valid_omit i j dif tg = omit_loop (rev (cstr tg)) (lhs_b dif) i (rhs_b dif) j"

section \<open>The tolerance evaluator\<close>

text \<open>The \<^verbatim>\<open>double\<close> locals of \<^verbatim>\<open>ndiff_testNum\<close> that outlive the comparison.\<close>

record 'd locals =
  lhs_d :: 'd
  rhs_d :: 'd
  dif_d :: 'd
  err_d :: 'd
  abs_d :: 'd
  rel_d :: 'd
  dig_d :: 'd
  min_d :: 'd
  pow_d :: 'd

definition zero_locals :: "('d::zero) locals" where
  "zero_locals = \<lparr>lhs_d = 0, rhs_d = 0, dif_d = 0, err_d = 0, abs_d = 0, rel_d = 0,
                  dig_d = 0, min_d = 0, pow_d = 0\<rparr>"

text \<open>
  Loading the numbers and computing the errors. In the swap branch the source
  reads \<^verbatim>\<open>double tmp = lhs_d; lhd_d = rhs_d; rhs_d = tmp;\<close>: the middle
  assignment goes to \<^verbatim>\<open>lhd_d\<close>, not to \<^verbatim>\<open>lhs_d\<close>, so \<^verbatim>\<open>lhs_d\<close> keeps its value
  and \<^verbatim>\<open>rhs_d\<close> receives it.
\<close>

definition testNum_locals ::
  "('d::{zero,one}, 'x) env \<Rightarrow> 'd list \<Rightarrow> int \<Rightarrow> 'd constraint \<Rightarrow> string \<Rightarrow> string
     \<Rightarrow> nat \<Rightarrow> nat \<Rightarrow> 'd locals" where
  "testNum_locals E rs n c lhs_p rhs_p n1 n2 =
     (let lhs0 = reg_getval rs n (lhs_reg c)
                   (if eps_lhs \<in> cmd c then e_lhs c else strtod E lhs_p);
          rhs0 = reg_getval rs n (rhs_reg c)
                   (if eps_rhs \<in> cmd c then e_rhs c else strtod E rhs_p);
          scl_d = reg_getval rs n (scl_reg c) (e_scl c);
          off_d = reg_getval rs n (off_reg c) (e_off c);
          min0 = fmin E (fabs E lhs0) (fabs E rhs0);
          pw = pow10 E (- imax (int n1) (int n2));
          mn = (if \<not> fgt E min0 0 then 1 else min0);
          (lhs1, rhs1) = (if eps_swap \<in> cmd c
                          then (let tmp = lhs0; lhd_d = rhs0 in (lhs0, tmp))
                          else (lhs0, rhs0));
          df = fsub E lhs1 rhs1;
          er = fmul E scl_d df;
          ab = fadd E er off_d
      in \<lparr>lhs_d = lhs1, rhs_d = rhs1, dif_d = df, err_d = er, abs_d = ab,
          rel_d = fdiv E ab mn, dig_d = fdiv E ab (fmul E mn pw), min_d = mn, pow_d = pw\<rparr>)"

text \<open>The bounds of one axis and the test against them.\<close>

definition axis_bounds ::
  "('d, 'x) env \<Rightarrow> 'd list \<Rightarrow> int \<Rightarrow> int \<Rightarrow> 'd \<Rightarrow> int \<Rightarrow> 'd \<Rightarrow> 'd \<times> 'd" where
  "axis_bounds E rs n r b lo_r lo =
     (let hi = reg_getval rs n r b;
          low = (if lo_r \<noteq> 0 \<and> lo_r = r then fneg E hi else reg_getval rs n lo_r lo)
      in (hi, low))"

definition violated :: "('d, 'x) env \<Rightarrow> 'd \<Rightarrow> 'd \<times> 'd \<Rightarrow> bool" where
  "violated E v bs = (fgt E v (fst bs) \<or> flt E v (snd bs))"

definition abs_violated :: "('d, 'x) env \<Rightarrow> 'd list \<Rightarrow> int \<Rightarrow> 'd constraint \<Rightarrow> 'd locals \<Rightarrow> bool" where
  "abs_violated E rs n c L =
     violated E (abs_d L) (axis_bounds E rs n (abs_reg c) (e_abs c) (abs_lo_reg c) (e_abs_lo c))"

definition rel_violated :: "('d, 'x) env \<Rightarrow> 'd list \<Rightarrow> int \<Rightarrow> 'd constraint \<Rightarrow> 'd locals \<Rightarrow> bool" where
  "rel_violated E rs n c L =
     violated E (rel_d L) (axis_bounds E rs n (rel_reg c) (e_rel c) (rel_lo_reg c) (e_rel_lo c))"

definition dig_violated :: "('d, 'x) env \<Rightarrow> 'd list \<Rightarrow> int \<Rightarrow> 'd constraint \<Rightarrow> 'd locals \<Rightarrow> bool" where
  "dig_violated E rs n c L =
     violated E (dig_d L) (axis_bounds E rs n (dig_reg c) (e_dig c) (dig_lo_reg c) (e_dig_lo c))"

text \<open>The label \<^verbatim>\<open>quit\<close>: registers 1 to 9, the register program, the cursors.\<close>

definition save_regs ::
  "('d, 'x) env \<Rightarrow> 'd constraint \<Rightarrow> string \<Rightarrow> string \<Rightarrow> 'd locals \<Rightarrow> 'd list \<Rightarrow> int \<Rightarrow> 'd list" where
  "save_regs E c lhs_p rhs_p L rs n =
     (let r1 = reg_setval rs n 1
                 (if lhs_reg c \<noteq> 0 \<or> eps_lhs \<in> cmd c
                  then strtod E (if eps_swap \<in> cmd c then rhs_p else lhs_p) else lhs_d L);
          r2 = reg_setval r1 n 2
                 (if rhs_reg c \<noteq> 0 \<or> eps_rhs \<in> cmd c
                  then strtod E (if eps_swap \<in> cmd c then lhs_p else rhs_p) else rhs_d L);
          r3 = reg_setval r2 n 3 (dif_d L);
          r4 = reg_setval r3 n 4 (err_d L);
          r5 = reg_setval r4 n 5 (abs_d L);
          r6 = reg_setval r5 n 6 (rel_d L);
          r7 = reg_setval r6 n 7 (dig_d L);
          r8 = reg_setval r7 n 8 (min_d L)
      in reg_setval r8 n 9 (pow_d L))"

definition run_prog :: "('d, 'x) env \<Rightarrow> (int \<times> int \<times> int \<times> int) list \<Rightarrow> 'd list \<Rightarrow> int \<Rightarrow> 'd list" where
  "run_prog E pr rs n = foldl (\<lambda>r (d, a, b, opc). reg_eval E r n d a b opc) rs pr"

definition testNum_quit ::
  "('d, 'x) env \<Rightarrow> 'd constraint \<Rightarrow> string \<Rightarrow> string \<Rightarrow> nat \<Rightarrow> nat \<Rightarrow> 'd locals
     \<Rightarrow> eps_cmd set \<Rightarrow> ('d, 'x) ndiff \<Rightarrow> eps_cmd set \<times> ('d, 'x) ndiff" where
  "testNum_quit E c lhs_p rhs_p l1 l2 L ret dif =
     (let dif1 = (if ret = {} \<or> eps_save \<in> cmd c
                  then dif\<lparr>reg := run_prog E (prog c)
                                    (save_regs E c lhs_p rhs_p L (reg dif) (reg_n dif))
                                    (reg_n dif)\<rparr>
                  else dif)
      in (ret, dif1\<lparr>lhs_i := lhs_i dif1 + l1, rhs_i := rhs_i dif1 + l2\<rparr>))"

text \<open>The label \<^verbatim>\<open>quit_diff\<close>: count the difference, notify the context, fall through.\<close>

definition testNum_quit_diff ::
  "('d, 'x) env \<Rightarrow> 'd constraint \<Rightarrow> string \<Rightarrow> string \<Rightarrow> nat \<Rightarrow> nat \<Rightarrow> 'd locals
     \<Rightarrow> eps_cmd set \<Rightarrow> ('d, 'x) ndiff \<Rightarrow> eps_cmd set \<times> ('d, 'x) ndiff" where
  "testNum_quit_diff E c lhs_p rhs_p l1 l2 L ret dif =
     (let dif1 = (if eps_nofail \<notin> cmd c then dif\<lparr>cnt_i := cnt_i dif + 1\<rparr> else dif);
          dif2 = (if eps_onfail \<in> cmd c
                  then dif1\<lparr>cxt := context_onfail E (cxt dif1) c\<rparr> else dif1)
      in testNum_quit E c lhs_p rhs_p l1 l2 L ret dif2)"

text \<open>The violated axes, after the collapse of the \<^verbatim>\<open>any\<close> mode.\<close>

definition testNum_axes ::
  "('d, 'x) env \<Rightarrow> 'd list \<Rightarrow> int \<Rightarrow> 'd constraint \<Rightarrow> 'd locals \<Rightarrow> bool \<Rightarrow> bool \<Rightarrow> eps_cmd set" where
  "testNum_axes E rs n c L f1 f2 =
     (let ret1 = (if eps_abs \<in> cmd c \<and> abs_violated E rs n c L then {eps_abs} else {});
          ret2 = (if eps_rel \<in> cmd c \<and> rel_violated E rs n c L
                  then insert eps_rel ret1 else ret1);
          ret3 = (if eps_dig \<in> cmd c \<and> (f1 \<or> f2) \<and> dig_violated E rs n c L
                  then insert eps_dig ret2 else ret2)
      in if eps_any \<in> cmd c \<and> ret3 \<inter> eps_dra \<noteq> cmd c \<inter> eps_dra then {} else ret3)"

text \<open>
  \<^verbatim>\<open>ndiff_testNum\<close>. The two texts at the cursors are lexed (which may rewrite
  an exponent marker in the buffers); a failed \<^verbatim>\<open>assert\<close> ends the program.
\<close>

definition ndiff_testNum ::
  "('d::{zero,one}, 'x) env \<Rightarrow> ('d, 'x) ndiff \<Rightarrow> 'd constraint
     \<Rightarrow> fatal + (eps_cmd set \<times> ('d, 'x) ndiff)" where
  "ndiff_testNum E dif0 c =
     (let p1 = parse_number (drop (lhs_i dif0) (lhs_b dif0));
          p2 = parse_number (drop (rhs_i dif0) (rhs_b dif0));
          dif = dif0\<lparr>lhs_b := take (lhs_i dif0) (lhs_b dif0) @ text_out p1,
                     rhs_b := take (rhs_i dif0) (rhs_b dif0) @ text_out p2\<rparr>;
          lhs_p = text_out p1;
          rhs_p = text_out p2;
          l1 = len p1;
          l2 = len p2
      in if l1 = 0 \<or> l2 = 0 then
           (if eps_ign \<in> cmd c \<and> eps_istr \<in> cmd c
            then Inr (testNum_quit E c lhs_p rhs_p l1 l2 zero_locals {} dif)
            else Inr (testNum_quit_diff E c lhs_p rhs_p l1 l2 zero_locals {eps_ign} dif))
         else if \<not> (eps_lhs \<in> cmd c \<or> strtod_len lhs_p = l1) then Inl Assertion_failed
         else if \<not> (eps_rhs \<in> cmd c \<or> strtod_len rhs_p = l2) then Inl Assertion_failed
         else
           (let L = testNum_locals E (reg dif) (reg_n dif) c lhs_p rhs_p (ndig p1) (ndig p2)
            in if eps_ign \<in> cmd c then Inr (testNum_quit E c lhs_p rhs_p l1 l2 L {} dif)
               else if eps_omit \<in> cmd c \<and> is_valid_omit (lhs_i dif) (rhs_i dif) dif (tag c)
               then Inr (testNum_quit E c lhs_p rhs_p l1 l2 L {} dif)
               else if eps_equ \<in> cmd c then
                 (if l1 \<noteq> l2 \<or> take l1 lhs_p \<noteq> take l1 rhs_p
                  then Inr (testNum_quit_diff E c lhs_p rhs_p l1 l2 L {eps_equ} dif)
                  else Inr (testNum_quit E c lhs_p rhs_p l1 l2 L {} dif))
               else
                 (let ret = testNum_axes E (reg dif) (reg_n dif) c L (is_real p1) (is_real p2)
                  in if ret = {} then Inr (testNum_quit E c lhs_p rhs_p l1 l2 L ret dif)
                     else Inr (testNum_quit_diff E c lhs_p rhs_p l1 l2 L ret dif))))"

section \<open>Loading a line\<close>

definition ndiff_grow :: "('d, 'x) ndiff \<Rightarrow> int \<Rightarrow> ('d, 'x) ndiff" where
  "ndiff_grow dif n = (if n > buf_n dif then dif\<lparr>buf_n := n\<rparr> else dif)"

definition ndiff_fillLine :: "('d, 'x) ndiff \<Rightarrow> string \<Rightarrow> string \<Rightarrow> int \<times> ('d, 'x) ndiff" where
  "ndiff_fillLine dif0 l r =
     (let dif = ndiff_reset_buf dif0;
          s1 = int (strlen l) + 1;
          s2 = int (strlen r) + 1;
          dif1 = ndiff_grow dif (imax s1 s2);
          dif2 = dif1\<lparr>lhs_b := memcpy (lhs_b dif1) (cstr l @ [NUL]) (nat s1),
                      rhs_b := memcpy (rhs_b dif1) (cstr r @ [NUL]) (nat s2)\<rparr>
      in (0, dif2\<lparr>col_i := 0, row_i := row_i dif2 + 1\<rparr>))"

definition ndiff_isempty :: "('d, 'x) ndiff \<Rightarrow> bool" where
  "ndiff_isempty dif =
     (peek (lhs_b dif) (lhs_i dif) = NUL \<and> peek (rhs_b dif) (rhs_i dif) = NUL)"

section \<open>The number scanner\<close>

definition is_separator :: "('d, 'x) env \<Rightarrow> char \<Rightarrow> bool" where
  "is_separator E c = (c = NUL \<or> isblank c \<or> (ispunct c \<and> c \<notin> set (cstr (option_chr E))))"

text \<open>The pointer-taking helpers get the buffer and the position in it.\<close>

definition is_number :: "string \<Rightarrow> nat \<Rightarrow> bool" where
  "is_number b p =
     (let i = (if peek b p = CHR ''-'' \<or> peek b p = CHR ''+'' \<or> peek b p = CHR '' ''
               then 1 else 0);
          j = (if peek b (p + i) = CHR ''.'' then i + 1 else i)
      in isdigit (peek b (p + j)))"

definition backtrack_number :: "string \<Rightarrow> nat \<Rightarrow> nat" where
  "backtrack_number b p =
     (if peek b p = CHR '' '' then p + 1
      else if peek b p = CHR ''.'' then
        (if p > 0 \<and> is_sign (peek b (p - 1)) then p - 1 else p)
      else if isdigit (peek b p) then
        (let p1 = (if p > 0 \<and> peek b (p - 1) = CHR ''.'' then p - 1 else p)
         in if p1 > 0 \<and> is_sign (peek b (p1 - 1)) then p1 - 1 else p1)
      else p)"

definition is_number_start :: "('d, 'x) env \<Rightarrow> string \<Rightarrow> nat \<Rightarrow> bool" where
  "is_number_start E b p =
     (is_sign (peek b p) \<or> p = 0 \<or> (p > 0 \<and> is_separator E (peek b (p - 1))))"

text \<open>
  Two pointers stepping together while the bytes under them are equal and
  satisfy \<open>P\<close> (false on NUL): the number of steps taken.
\<close>

definition common_run :: "(char \<Rightarrow> bool) \<Rightarrow> string \<Rightarrow> nat \<Rightarrow> string \<Rightarrow> nat \<Rightarrow> nat" where
  "common_run P lb i rb j =
     length (takeWhile (\<lambda>(a, b). a = b \<and> P a) (zip (drop i lb) (drop j rb)))"

definition skip_identifier ::
  "('d, 'x) env \<Rightarrow> string \<Rightarrow> nat \<Rightarrow> string \<Rightarrow> nat \<Rightarrow> bool \<Rightarrow> nat \<times> nat" where
  "skip_identifier E lb lp rb rp strict =
     (if strict then
        (let n = common_run (\<lambda>c. \<not> is_separator E c) lb lp rb rp in (lp + n, rp + n))
      else (scan (\<lambda>c. \<not> is_separator E c) lb lp, scan (\<lambda>c. \<not> is_separator E c) rb rp))"

text \<open>
  One pass from the label \<^verbatim>\<open>retry\<close> to the end-of-line test: the new
  positions, and whether the blank compression jumps back to \<^verbatim>\<open>retry\<close>.
\<close>

definition nextNum_sync ::
  "('d, 'x) ndiff \<Rightarrow> 'd constraint \<Rightarrow> nat \<Rightarrow> nat \<Rightarrow> bool \<times> nat \<times> nat" where
  "nextNum_sync dif c lp rp =
     (if eps_istr \<in> cmd c then
        (False, scan (\<lambda>ch. ch \<noteq> NUL \<and> \<not> isdigit ch) (lhs_b dif) lp,
                scan (\<lambda>ch. ch \<noteq> NUL \<and> \<not> isdigit ch) (rhs_b dif) rp)
      else
        (let n = common_run (\<lambda>ch. ch \<noteq> NUL \<and> \<not> isdigit ch) (lhs_b dif) lp (rhs_b dif) rp;
             lp1 = lp + n;
             rp1 = rp + n
         in if blank dif \<noteq> 0 \<and> (isblank (peek (lhs_b dif) lp1) \<or> isblank (peek (rhs_b dif) rp1))
            then (True, scan isblank (lhs_b dif) lp1, scan isblank (rhs_b dif) rp1)
            else (False, lp1, rp1)))"

text \<open>The branch taken when a cursor is not at the start of a number.\<close>

definition nextNum_skip ::
  "('d, 'x) env \<Rightarrow> ('d, 'x) ndiff \<Rightarrow> 'd constraint \<Rightarrow> nat \<Rightarrow> nat \<Rightarrow> nat \<times> nat" where
  "nextNum_skip E dif c lp rp =
     (if eps_istr \<in> cmd c then
        (let lp1 = (if \<not> is_number_start E (lhs_b dif) lp
                    then scan (\<lambda>ch. \<not> is_separator E ch) (lhs_b dif) lp else lp);
             rp1 = (if \<not> is_number_start E (rhs_b dif) rp
                    then scan (\<lambda>ch. \<not> is_separator E ch) (rhs_b dif) rp else rp)
         in (lp1, rp1))
      else
        (let strict = (if eps_omit \<in> cmd c then \<not> is_valid_omit lp rp dif (tag c) else True)
         in skip_identifier E (lhs_b dif) lp (rhs_b dif) rp strict))"

text \<open>
  The \<^verbatim>\<open>retry\<close> loop. Nothing in the source bounds the number of jumps back to
  \<^verbatim>\<open>retry\<close>, so the loop runs on fuel: \<open>None\<close> means that the fuel did not
  suffice. The result says through which exit the loop was left and where
  the two pointers are.
\<close>

datatype nn_exit = Found | Quit_diff | Quit_str

fun nextNum_retry ::
  "nat \<Rightarrow> ('d, 'x) env \<Rightarrow> ('d, 'x) ndiff \<Rightarrow> 'd constraint \<Rightarrow> nat \<Rightarrow> nat
     \<Rightarrow> (nn_exit \<times> nat \<times> nat) option" where
  "nextNum_retry 0 E dif c lp rp = None"
| "nextNum_retry (Suc k) E dif c lp rp =
     (case nextNum_sync dif c lp rp of (again, lp1, rp1) \<Rightarrow>
        if again then nextNum_retry k E dif c lp1 rp1
        else if peek (lhs_b dif) lp1 = NUL \<and> peek (rhs_b dif) rp1 = NUL
        then Some (Quit_str, lp1, rp1)
        else if peek (lhs_b dif) lp1 \<noteq> peek (rhs_b dif) rp1
                \<and> (\<not> is_number (lhs_b dif) lp1 \<or> \<not> is_number (rhs_b dif) rp1)
        then Some (Quit_diff, lp1, rp1)
        else
          (let lp2 = backtrack_number (lhs_b dif) lp1;
               rp2 = backtrack_number (rhs_b dif) rp1
           in if \<not> is_number_start E (lhs_b dif) lp2 \<or> \<not> is_number_start E (rhs_b dif) rp2
              then (case nextNum_skip E dif c lp2 rp2 of (lp3, rp3) \<Rightarrow>
                      nextNum_retry k E dif c lp3 rp3)
              else Some (Found, lp2, rp2)))"

definition nextNum_quit_str :: "('d, 'x) ndiff \<Rightarrow> nat \<Rightarrow> nat \<Rightarrow> int \<times> ('d, 'x) ndiff" where
  "nextNum_quit_str dif lp rp = (0, dif\<lparr>lhs_i := lp + 1, rhs_i := rp + 1, col_i := 0\<rparr>)"

definition nextNum_quit_diff ::
  "('d, 'x) env \<Rightarrow> ('d, 'x) ndiff \<Rightarrow> 'd constraint \<Rightarrow> nat \<Rightarrow> nat \<Rightarrow> int \<times> ('d, 'x) ndiff" where
  "nextNum_quit_diff E dif c lp rp =
     (let dif1 = dif\<lparr>lhs_i := lp + 1, rhs_i := rp + 1\<rparr>;
          dif2 = (if eps_nofail \<notin> cmd c then dif1\<lparr>cnt_i := cnt_i dif1 + 1\<rparr> else dif1);
          dif3 = (if eps_onfail \<in> cmd c
                  then dif2\<lparr>cxt := context_onfail E (cxt dif2) c\<rparr> else dif2)
      in nextNum_quit_str dif3 lp rp)"

definition ndiff_nextNum ::
  "nat \<Rightarrow> ('d, 'x) env \<Rightarrow> ('d, 'x) ndiff \<Rightarrow> 'd constraint \<Rightarrow> (int \<times> ('d, 'x) ndiff) option" where
  "ndiff_nextNum fuel E dif c =
     (if ndiff_isempty dif then Some (nextNum_quit_str dif (lhs_i dif) (rhs_i dif))
      else
        (case nextNum_retry fuel E dif c (lhs_i dif) (rhs_i dif) of
           None \<Rightarrow> None
         | Some (Quit_str, lp, rp) \<Rightarrow> Some (nextNum_quit_str dif lp rp)
         | Some (Quit_diff, lp, rp) \<Rightarrow> Some (nextNum_quit_diff E dif c lp rp)
         | Some (Found, lp, rp) \<Rightarrow>
             Some (col_i dif + 1,
                   dif\<lparr>lhs_i := lp, rhs_i := rp, num_i := num_i dif + 1,
                       col_i := col_i dif + 1\<rparr>)))"

section \<open>The column loop of the driver\<close>

text \<open>
  The inner loop of \<^verbatim>\<open>ndiff_loop\<close>: ask the scanner for the next column, fetch
  the rule of that column, stop at a state-changing rule, otherwise test the
  numbers. Besides the accumulated result and the state, the model returns
  the columns at which \<^verbatim>\<open>ndiff_testNum\<close> was called, in order. \<open>fuel\<close> bounds
  the scanner, the first argument bounds the columns.
\<close>

fun loop_cols ::
  "nat \<Rightarrow> nat \<Rightarrow> ('d::{zero,one}, 'x) env \<Rightarrow> int \<Rightarrow> 'd constraint \<Rightarrow> eps_cmd set \<Rightarrow> int list
     \<Rightarrow> ('d, 'x) ndiff \<Rightarrow> (fatal + (eps_cmd set \<times> int list \<times> ('d, 'x) ndiff)) option" where
  "loop_cols 0 fuel E row c ret calls dif = None"
| "loop_cols (Suc k) fuel E row c ret calls dif =
     (case ndiff_nextNum fuel E dif c of
        None \<Rightarrow> None
      | Some (col, dif1) \<Rightarrow>
          if col = 0 then Some (Inr (ret, calls, dif1))
          else
            (case context_getInc E (cxt dif1) row col of
               (None, cx) \<Rightarrow> Some (Inl Ensure_failed)
             | (Some c1, cx) \<Rightarrow>
                 if check dif1 \<noteq> 0 \<and> context_getAt E cx row col \<noteq> Some c1
                 then Some (Inl Error_exit)
                 else if eps_sgg \<in> cmd c1 then Some (Inr (ret, calls, dif1\<lparr>cxt := cx\<rparr>))
                 else
                   (case ndiff_testNum E (dif1\<lparr>cxt := cx\<rparr>) c1 of
                      Inl e \<Rightarrow> Some (Inl e)
                    | Inr (r, dif2) \<Rightarrow>
                        loop_cols k fuel E row c1 (ret \<union> r) (calls @ [col]) dif2)))"

section \<open>Reading lines and seeking a tag\<close>

definition newline :: char where
  "newline = CHR 0x0A"

text \<open>
  Modelled from the spec: \<^verbatim>\<open>readLine(in, buf, n, &len)\<close> of the utilities module,
  whose code is missing. It stores bytes of the stream until a newline has
  been consumed (and not stored), the end of the file is met, or \<open>n - 1\<close>
  bytes are stored; it returns the newline, \<^verbatim>\<open>EOF\<close>, or another value when the
  room is used up, and the number of bytes stored.
\<close>

datatype rl_status = RL_newline | RL_eof | RL_other

fun read_chunk :: "string \<Rightarrow> nat \<Rightarrow> rl_status \<times> string \<times> string" where
  "read_chunk s 0 = (RL_other, [], s)"
| "read_chunk [] (Suc n) = (RL_eof, [], [])"
| "read_chunk (ch # s) (Suc n) =
     (if ch = newline then (RL_newline, [], s)
      else (case read_chunk s n of (st, chunk, rest) \<Rightarrow> (st, ch # chunk, rest)))"

definition readLine :: "stream \<Rightarrow> int \<Rightarrow> rl_status \<times> string \<times> stream" where
  "readLine f n =
     (case read_chunk (pending f) (nat (n - 1)) of
        (st, chunk, rest) \<Rightarrow> (st, chunk, \<lparr>pending = rest, at_eof = (at_eof f \<or> st = RL_eof)\<rparr>))"

text \<open>
  The loop that reads one whole line, doubling the capacity whenever a call
  of \<^verbatim>\<open>readLine\<close> ends for lack of room. It is written out five times in the
  source (once in \<^verbatim>\<open>ndiff_readLine\<close>, twice each in \<^verbatim>\<open>ndiff_gotoLine\<close> and
  \<^verbatim>\<open>ndiff_gotoNum\<close>). With a capacity that doubling does not enlarge it would
  spin, so it runs on fuel. \<open>acc\<close> is what the calls so far have stored in
  the buffer from index 0 on; its length is the offset \<^verbatim>\<open>s\<close> of the source.
  Each call puts its bytes and a terminator at that offset, so when the loop
  ends the buffer holds the line, its terminator, and behind them the bytes
  it held before.
\<close>

fun read_line_loop ::
  "nat \<Rightarrow> stream \<Rightarrow> string \<Rightarrow> int \<Rightarrow> (rl_status \<times> string \<times> stream \<times> int) option" where
  "read_line_loop 0 f acc bn = None"
| "read_line_loop (Suc k) f acc bn =
     (case readLine f (bn - int (length acc)) of
        (st, chunk, f') \<Rightarrow>
          if st = RL_newline \<or> st = RL_eof then Some (st, acc @ chunk, f', bn)
          else read_line_loop k f' (acc @ chunk) (if 2 * bn > bn then 2 * bn else bn))"

text \<open>\<^verbatim>\<open>strstr\<close> on C strings, as a test: does the needle occur in the text?\<close>

fun strstr :: "string \<Rightarrow> string \<Rightarrow> bool" where
  "strstr [] nd = (nd = [])"
| "strstr (h # hs) nd = (prefix nd (h # hs) \<or> strstr hs nd)"

text \<open>
  One side of \<^verbatim>\<open>ndiff_gotoLine\<close>: the outer \<^verbatim>\<open>while (1)\<close> with \<open>c\<close> the last
  status, \<open>b\<close> the buffer of that side and \<open>i\<close> the count of lines read. It
  gives the status, the buffer, the stream, the capacity and the count it
  ends with.
\<close>

fun goto_side ::
  "nat \<Rightarrow> nat \<Rightarrow> string \<Rightarrow> rl_status \<Rightarrow> stream \<Rightarrow> string \<Rightarrow> int \<Rightarrow> int
     \<Rightarrow> (rl_status \<times> string \<times> stream \<times> int \<times> int) option" where
  "goto_side 0 fuel tg c f b bn i = None"
| "goto_side (Suc k) fuel tg c f b bn i =
     (if c = RL_eof then Some (c, poke0 b, f, bn, i)
      else
        (case read_line_loop fuel f [] bn of
           None \<Rightarrow> None
         | Some (c', txt, f', bn') \<Rightarrow>
             (let b' = memcpy (poke0 b) (txt @ [NUL]) (length txt + 1)
              in if strstr (cstr b') tg then Some (c', b', f', bn', i + 1)
                 else goto_side k fuel tg c' f' b' bn' (i + 1))))"

text \<open>
  \<^verbatim>\<open>ndiff_gotoLine\<close>: the left side, then the right side with the capacity
  the left side left behind; the result says whether either side met the end
  of its file.
\<close>

definition ndiff_gotoLine ::
  "nat \<Rightarrow> ('d, 'x) ndiff \<Rightarrow> 'd constraint \<Rightarrow> (bool \<times> ('d, 'x) ndiff) option" where
  "ndiff_gotoLine fuel dif c =
     (case goto_side fuel fuel (cstr (tag c)) RL_other (lhs_f dif) (lhs_b dif) (buf_n dif) 0 of
        None \<Rightarrow> None
      | Some (c1, lb, lf, bn1, i1) \<Rightarrow>
          (case goto_side fuel fuel (cstr (tag c)) RL_other (rhs_f dif) (rhs_b dif) bn1 0 of
             None \<Rightarrow> None
           | Some (c2, rb, rf, bn2, i2) \<Rightarrow>
               Some (c1 = RL_eof \<or> c2 = RL_eof,
                     dif\<lparr>lhs_f := lf, rhs_f := rf, lhs_i := 0, rhs_i := 0,
                         lhs_b := lb, rhs_b := rb, buf_n := bn2, col_i := 0,
                         row_i := row_i dif + (if i1 < i2 then i1 else i2)\<rparr>)))"

text \<open>
  The navigation as the design describes it, on the bytes of one stream: go
  line by line until a line contains the tag or the end of the file is met.
  \<open>seek_tag\<close> gives the number of lines read (the last read, which meets the
  end of the file, included), the line found (empty if none) and the bytes
  left in the stream.
\<close>

definition first_line :: "string \<Rightarrow> string" where
  "first_line s = takeWhile (\<lambda>ch. ch \<noteq> newline) s"

definition after_line :: "string \<Rightarrow> string" where
  "after_line s = drop (Suc (length (first_line s))) s"

function seek_tag :: "string \<Rightarrow> string \<Rightarrow> nat \<times> string \<times> string" where
  "seek_tag tg s =
     (if strstr (cstr (first_line s)) tg then (1, first_line s, after_line s)
      else if newline \<notin> set s then (1, [], [])
      else (case seek_tag tg (after_line s) of (n, l, r) \<Rightarrow> (Suc n, l, r)))"
  by pat_completeness auto
termination
proof (relation "measure (\<lambda>(tg, s). length s)")
  show "wf (measure (\<lambda>(tg, s). length s))" by simp
next
  fix tg s :: string
  assume "\<not> newline \<notin> set s"
  then have "s \<noteq> []" by auto
  then show "((tg, after_line s), (tg, s)) \<in> measure (\<lambda>(tg, s). length s)"
    by (simp add: after_line_def)
qed

declare seek_tag.simps [simp del]


definition line_end :: "string \<Rightarrow> rl_status" where
  "line_end s = (if newline \<in> set s then RL_newline else RL_eof)"

definition lines_consumed :: "string \<Rightarrow> string \<Rightarrow> nat" where
  "lines_consumed tg s = fst (seek_tag tg s)"

definition line_found :: "string \<Rightarrow> string \<Rightarrow> string" where
  "line_found tg s = fst (snd (seek_tag tg s))"

definition stream_left :: "string \<Rightarrow> string \<Rightarrow> string" where
  "stream_left tg s = snd (snd (seek_tag tg s))"

section \<open>An exact environment for evaluation\<close>

text \<open>
  For evaluating the engine on concrete lines the parameters are instantiated
  with exact rational arithmetic, which agrees with \<^verbatim>\<open>double\<close> on the small
  integers and dyadic fractions used below. Its \<^verbatim>\<open>strtod\<close> reads the decimal
  forms only, its register program is not interpreted (the rules below have
  none), and its context is the one rule it always gives.
\<close>

definition digits_val :: "string \<Rightarrow> nat" where
  "digits_val s = foldl (\<lambda>a c. 10 * a + (of_char c - 48)) 0 s"

definition pow10_exact :: "int \<Rightarrow> rat" where
  "pow10_exact k = (if 0 \<le> k then 10 ^ nat k else 1 / 10 ^ nat (- k))"

definition exp_val :: "string \<Rightarrow> int" where
  "exp_val s =
     (if exp_len (\<lambda>c. c = CHR ''e'' \<or> c = CHR ''E'') s = 0 then 0
      else (let sg = (if is_sign (peek s 1) then 1 else 0);
                v = int (digits_val (takeWhile isdigit (drop (1 + sg) s)))
            in if peek s 1 = CHR ''-'' then - v else v))"

definition strtod_exact :: "string \<Rightarrow> rat" where
  "strtod_exact s =
     (let t = cstr s;
          w = length (takeWhile isspace t);
          sg = (if is_sign (peek t w) then 1 else 0);
          u = drop (w + sg) t;
          ip = takeWhile isdigit u;
          fp = (if peek u (length ip) = CHR ''.''
                then takeWhile isdigit (drop (length ip + 1) u) else []);
          m = snd (mantissa_len isdigit u);
          v = of_nat (digits_val (ip @ fp)) * pow10_exact (exp_val (drop m u) - int (length fp))
      in if ip @ fp = [] then 0 else if peek t w = CHR ''-'' then - v else v)"

definition exact_env :: "(rat, rat constraint) env" where
  "exact_env =
     \<lparr>option_chr = [], strtod = strtod_exact, pow10 = pow10_exact,
      fabs = abs, fmin = min, fneg = uminus, fadd = (+), fsub = (-), fmul = (*),
      fdiv = (/), fgt = (\<lambda>a b. a > b), flt = (\<lambda>a b. a < b),
      reg_eval = (\<lambda>r n d a b opc. r),
      context_getInc = (\<lambda>x row col. (Some x, x)),
      context_getAt = (\<lambda>x row col. Some x),
      context_onfail = (\<lambda>x c. x)\<rparr>"

text \<open>A rule with the given command and bounds, unit scale, and nothing else.\<close>

definition plain_rule :: "eps_cmd set \<Rightarrow> rat \<Rightarrow> rat \<Rightarrow> rat \<Rightarrow> rat constraint" where
  "plain_rule cm a r d =
     \<lparr>cmd = cm, tag = [], e_lhs = 0, e_rhs = 0, e_scl = 1, e_off = 0,
      e_abs = a, e_abs_lo = - a, e_rel = r, e_rel_lo = - r, e_dig = d, e_dig_lo = - d,
      lhs_reg = 0, rhs_reg = 0, scl_reg = 0, off_reg = 0, abs_reg = 0, abs_lo_reg = 0,
      rel_reg = 0, rel_lo_reg = 0, dig_reg = 0, dig_lo_reg = 0, prog = []\<rparr>"

text \<open>
  A fresh object whose context is the rule \<open>c\<close>, with one pair of lines
  loaded by \<^verbatim>\<open>ndiff_fillLine\<close>.
\<close>

definition no_input :: stream where
  "no_input = \<lparr>pending = [], at_eof = False\<rparr>"

definition loaded :: "rat constraint \<Rightarrow> string \<Rightarrow> string \<Rightarrow> (rat, rat constraint) ndiff" where
  "loaded c l r = snd (ndiff_fillLine (ndiff_alloc 200 no_input no_input c 0 0) l r)"

definition rule_abs_half :: "rat constraint" where
  "rule_abs_half = plain_rule {eps_abs} (1 / 2) 0 0"

text \<open>
  The lines \<^verbatim>\<open>a 1 b\<close> and \<^verbatim>\<open>a 2 b\<close> under the rule that enables the absolute
  axis with bound one half, once the scanner has stopped on column 1.
\<close>

definition scenario3 :: "(rat, rat constraint) ndiff" where
  "scenario3 = (loaded rule_abs_half ''a 1 b'' ''a 2 b'')
                 \<lparr>lhs_i := 2, rhs_i := 2, num_i := 1, col_i := 1\<rparr>"

text \<open>The locals \<^verbatim>\<open>ndiff_testNum\<close> computes in a given state, when both literals parse.\<close>

definition testNum_vals ::
  "('d::{zero,one}, 'x) env \<Rightarrow> ('d, 'x) ndiff \<Rightarrow> 'd constraint \<Rightarrow> 'd locals" where
  "testNum_vals E dif c =
     (let p1 = parse_number (drop (lhs_i dif) (lhs_b dif));
          p2 = parse_number (drop (rhs_i dif) (rhs_b dif))
      in testNum_locals E (reg dif) (reg_n dif) c (text_out p1) (text_out p2) (ndig p1) (ndig p2))"

text \<open>
  The conditions under which \<^verbatim>\<open>ndiff_testNum\<close> gets past the missing-number
  test and its two assertions.
\<close>

definition testNum_asserts :: "('d, 'x) ndiff \<Rightarrow> 'd constraint \<Rightarrow> bool" where
  "testNum_asserts dif c =
     (let p1 = parse_number (drop (lhs_i dif) (lhs_b dif));
          p2 = parse_number (drop (rhs_i dif) (rhs_b dif))
      in len p1 \<noteq> 0 \<and> len p2 \<noteq> 0
         \<and> (eps_lhs \<in> cmd c \<or> strtod_len (text_out p1) = len p1)
         \<and> (eps_rhs \<in> cmd c \<or> strtod_len (text_out p2) = len p2))"

text \<open>A rule in any-mode over the absolute and relative axes, both bounds one half.\<close>

definition rule_any :: "rat constraint" where
  "rule_any = plain_rule {eps_any, eps_abs, eps_rel} (1 / 2) (1 / 2) 0"

text \<open>Two streams that meet the tag \<^verbatim>\<open>x\<close> on their second and on their first line.\<close>

definition rule_goto_x :: "rat constraint" where
  "rule_goto_x = (plain_rule {eps_goto} 0 0 0)\<lparr>tag := ''x''\<rparr>"

definition two_streams :: "(rat, rat constraint) ndiff" where
  "two_streams =
     ndiff_alloc 200
       \<lparr>pending = ''abc'' @ [newline] @ ''axb'' @ [newline] @ ''def'', at_eof = False\<rparr>
       \<lparr>pending = ''axb'' @ [newline] @ ''q'', at_eof = False\<rparr>
       rule_goto_x 0 0"





section \<open>Boundary behaviour of the lexer\<close>

text \<open>
  Claim C9. A lone point is rejected; \<^verbatim>\<open>.5\<close> is accepted with one counted digit
  and the real flag; \<^verbatim>\<open>5.\<close> is accepted; in \<^verbatim>\<open>1e\<close> only the \<^verbatim>\<open>1\<close> is taken and
  the marker is put back (for \<^verbatim>\<open>1D\<close> the \<^verbatim>\<open>D\<close> is restored); \<^verbatim>\<open>1D-3\<close> is
  accepted whole and the buffer then reads \<^verbatim>\<open>1e-3\<close>.
\<close>

theorem parse_number_boundaries:
  "len (parse_number ''.'') = 0
   \<and> len (parse_number ''.5'') = 2 \<and> ndig (parse_number ''.5'') = 1
       \<and> is_real (parse_number ''.5'')
   \<and> len (parse_number ''5.'') = 2
   \<and> len (parse_number ''1e'') = 1 \<and> text_out (parse_number ''1e'') = ''1e''
       \<and> expo (parse_number ''1e'') = - 1
   \<and> len (parse_number ''1D'') = 1 \<and> text_out (parse_number ''1D'') = ''1D''
   \<and> len (parse_number ''1D-3'') = 4 \<and> text_out (parse_number ''1D-3'') = ''1e-3''
       \<and> expo (parse_number ''1D-3'') = 1"
  by code_simp

text \<open>
  Claim C2. The assertions of \<^verbatim>\<open>ndiff_testNum\<close> require \<^verbatim>\<open>strtod\<close> to stop
  where the lexer stopped. On the text \<^verbatim>\<open>0x1A\<close> the lexer accepts the literal
  \<^verbatim>\<open>0\<close> of length 1 and leaves the text as it is, while \<^verbatim>\<open>strtod\<close> reads a
  hexadecimal constant of 4 bytes. The scanner stops on that text as column 1,
  and the column loop then ends in the failed assertion.
\<close>

theorem strtod_hex_longer_than_lexer:
  "len (parse_number ''0x1A'') = 1
   \<and> text_out (parse_number ''0x1A'') = ''0x1A''
   \<and> strtod_len (text_out (parse_number ''0x1A'')) = 4
   \<and> loop_cols 4 4 exact_env 1 rule_abs_half {} [] (loaded rule_abs_half ''0x1A'' ''0x1A'')
       = Some (Inl Assertion_failed)"
  by code_simp

theorem strtod_hex_longer_than_lexer_witness:
  "len (parse_number ''0x1A'') = 1 \<and> strtod_len (text_out (parse_number ''0x1A'')) = 4"
  using strtod_hex_longer_than_lexer by blast


section \<open>The evaluator on concrete lines\<close>

text \<open>
  Claim C1. With the swap flag the two values are not exchanged: for the
  literals 1 and 2 the evaluator works with \<open>lhs_d = 1\<close> and \<open>rhs_d = 1\<close>, so
  the difference is 0 instead of \<open>2 - 1\<close>, no axis is violated, and registers
  1 to 3 receive 1, 1 and 0.
\<close>

theorem swap_copies_lhs_d:
  "(let R = plain_rule {eps_abs, eps_swap, eps_save} (1 / 2) 0 0;
        d = loaded R ''1'' ''2''
    in lhs_d (testNum_vals exact_env d R) = 1
       \<and> rhs_d (testNum_vals exact_env d R) = 1
       \<and> dif_d (testNum_vals exact_env d R) = 0
       \<and> (case ndiff_testNum exact_env d R of
             Inl e \<Rightarrow> False
           | Inr (ret, d') \<Rightarrow> ret = {} \<and> cnt_i d' = 0 \<and> take 4 (reg d') = [0, 1, 1, 0]))"
  by code_simp

theorem swap_copies_lhs_d_witness:
  "dif_d (testNum_vals exact_env
            (loaded (plain_rule {eps_abs, eps_swap, eps_save} (1 / 2) 0 0) ''1'' ''2'')
            (plain_rule {eps_abs, eps_swap, eps_save} (1 / 2) 0 0)) = 0"
  using swap_copies_lhs_d by (simp add: Let_def)


text \<open>
  Claim C7, as stated, fails: after the test of \<^verbatim>\<open>a 1 b\<close> against \<^verbatim>\<open>a 2 b\<close>
  the registers do not hold \<open>R5 = 1\<close>, \<open>R6 = 0.5\<close>, \<open>R1 = 1\<close>, \<open>R2 = 2\<close>.
\<close>

theorem scenario3_registers_counterexample:
  "ndiff_nextNum 8 exact_env (loaded rule_abs_half ''a 1 b'' ''a 2 b'') rule_abs_half
     = Some (1, scenario3)
   \<and> (case ndiff_testNum exact_env scenario3 rule_abs_half of
         Inl e \<Rightarrow> False
       | Inr (ret, d') \<Rightarrow>
           \<not> (reg d' ! 5 = 1 \<and> reg d' ! 6 = 1 / 2 \<and> reg d' ! 1 = 1 \<and> reg d' ! 2 = 2))"
  by code_simp

text \<open>
  Claim C7, amended. The scanner stops on column 1; the evaluator computes the
  absolute error \<open>1 - 2 = - 1\<close>, which lies below the lower bound \<open>- 0.5\<close>; it
  returns the absolute axis and counts one difference; the rule does not set
  the save flag, so no register is written and all of them are still zero.
\<close>

theorem scenario3_reported_registers_kept:
  "ndiff_nextNum 8 exact_env (loaded rule_abs_half ''a 1 b'' ''a 2 b'') rule_abs_half
     = Some (1, scenario3)
   \<and> cnt_i scenario3 = 0 \<and> reg scenario3 = replicate 99 0
   \<and> abs_d (testNum_vals exact_env scenario3 rule_abs_half) = - 1
   \<and> flt exact_env (abs_d (testNum_vals exact_env scenario3 rule_abs_half))
        (e_abs_lo rule_abs_half)
   \<and> (case ndiff_testNum exact_env scenario3 rule_abs_half of
         Inl e \<Rightarrow> False
       | Inr (ret, d') \<Rightarrow>
           ret = {eps_abs} \<and> cnt_i d' = 1 \<and> reg d' = replicate 99 0
           \<and> lhs_i d' = 3 \<and> rhs_i d' = 3)"
  by code_simp

theorem scenario3_reported_registers_kept_witness:
  "\<exists>d'. ndiff_testNum exact_env scenario3 rule_abs_half = Inr ({eps_abs}, d')
         \<and> cnt_i d' = 1 \<and> reg d' = replicate 99 0"
  using scenario3_reported_registers_kept by (auto split: sum.splits)


text \<open>
  Claim C4, as stated, fails in its first case: under a rule with the flags
  any, abs and rel, a pair that violates the relative bound and meets the
  absolute one is not reported.
\<close>

theorem any_rel_only_counterexample:
  "(let R = plain_rule {eps_any, eps_abs, eps_rel} 2 (1 / 2) 0;
        d = loaded R ''1'' ''2'';
        L = testNum_vals exact_env d R
    in rel_violated exact_env (reg d) (reg_n d) R L
       \<and> \<not> abs_violated exact_env (reg d) (reg_n d) R L
       \<and> (case ndiff_testNum exact_env d R of
             Inl e \<Rightarrow> False
           | Inr (ret, d') \<Rightarrow> ret = {} \<and> cnt_i d' = cnt_i d))"
  by code_simp

subsection \<open>The any-mode\<close>

lemma axes_any_abs_rel:
  assumes "eps_any \<in> cmd c" "eps_abs \<in> cmd c" "eps_rel \<in> cmd c" "eps_dig \<notin> cmd c"
  shows "testNum_axes E rs n c L f1 f2 =
           (if abs_violated E rs n c L \<and> rel_violated E rs n c L then {eps_abs, eps_rel} else {})"
  using assms unfolding testNum_axes_def Let_def eps_dra_def by auto

lemma quit_result:
  "\<exists>d'. testNum_quit E c lp rp l1 l2 L ret dif = (ret, d') \<and> cnt_i d' = cnt_i dif"
  by (simp add: testNum_quit_def Let_def)

lemma quit_diff_result:
  "\<exists>d'. testNum_quit_diff E c lp rp l1 l2 L ret dif = (ret, d')
        \<and> cnt_i d' = (if eps_nofail \<notin> cmd c then cnt_i dif + 1 else cnt_i dif)"
  by (simp add: testNum_quit_diff_def testNum_quit_def Let_def)

text \<open>
  Claim C4, amended. Under a rule with the flags any, abs and rel (and none of
  dig, ign, omit, equ), for two literals that parse and pass the assertions,
  the evaluator reports exactly when both axes are violated: then it returns
  both axes and, unless nofail is set, counts one difference. When only one
  axis is violated, or none, it returns the empty mask and counts nothing.
\<close>

theorem any_mode_all_or_nothing:
  fixes E :: "('d::{zero,one}, 'x) env"
  assumes flags: "eps_any \<in> cmd c" "eps_abs \<in> cmd c" "eps_rel \<in> cmd c" "eps_dig \<notin> cmd c"
    and plain: "eps_ign \<notin> cmd c" "eps_omit \<notin> cmd c" "eps_equ \<notin> cmd c"
    and ok: "testNum_asserts dif c"
  shows "\<exists>dif'. ndiff_testNum E dif c =
            Inr (if abs_violated E (reg dif) (reg_n dif) c (testNum_vals E dif c)
                    \<and> rel_violated E (reg dif) (reg_n dif) c (testNum_vals E dif c)
                 then {eps_abs, eps_rel} else {}, dif')
          \<and> cnt_i dif' =
              (if abs_violated E (reg dif) (reg_n dif) c (testNum_vals E dif c)
                  \<and> rel_violated E (reg dif) (reg_n dif) c (testNum_vals E dif c)
                  \<and> eps_nofail \<notin> cmd c
               then cnt_i dif + 1 else cnt_i dif)"
proof -
  let ?p1 = "parse_number (drop (lhs_i dif) (lhs_b dif))"
  let ?p2 = "parse_number (drop (rhs_i dif) (rhs_b dif))"
  let ?d = "dif\<lparr>lhs_b := take (lhs_i dif) (lhs_b dif) @ text_out ?p1,
                 rhs_b := take (rhs_i dif) (rhs_b dif) @ text_out ?p2\<rparr>"
  let ?L = "testNum_vals E dif c"
  let ?both = "abs_violated E (reg dif) (reg_n dif) c ?L \<and> rel_violated E (reg dif) (reg_n dif) c ?L"
  let ?ret = "if ?both then {eps_abs, eps_rel} else {}"
  from ok have l: "len ?p1 \<noteq> 0" "len ?p2 \<noteq> 0"
    and a1: "eps_lhs \<in> cmd c \<or> strtod_len (text_out ?p1) = len ?p1"
    and a2: "eps_rhs \<in> cmd c \<or> strtod_len (text_out ?p2) = len ?p2"
    by (simp_all add: testNum_asserts_def Let_def)
  have ax: "testNum_axes E (reg dif) (reg_n dif) c ?L (is_real ?p1) (is_real ?p2) = ?ret"
    by (rule axes_any_abs_rel[OF flags])
  have run: "ndiff_testNum E dif c =
               Inr (if ?ret = {} then testNum_quit E c (text_out ?p1) (text_out ?p2) (len ?p1) (len ?p2) ?L ?ret ?d
                    else testNum_quit_diff E c (text_out ?p1) (text_out ?p2) (len ?p1) (len ?p2) ?L ?ret ?d)"
    using l a1 a2 plain ax
    by (simp add: ndiff_testNum_def testNum_vals_def Let_def)
  show ?thesis
  proof (cases ?both)
    case True
    obtain d' where q: "testNum_quit_diff E c (text_out ?p1) (text_out ?p2) (len ?p1) (len ?p2)
                          ?L {eps_abs, eps_rel} ?d = ({eps_abs, eps_rel}, d')"
      and n: "cnt_i d' = (if eps_nofail \<notin> cmd c then cnt_i ?d + 1 else cnt_i ?d)"
      using quit_diff_result by blast
    from True run q have "ndiff_testNum E dif c = Inr ({eps_abs, eps_rel}, d')" by simp
    with True n show ?thesis by simp
  next
    case False
    obtain d' where q: "testNum_quit E c (text_out ?p1) (text_out ?p2) (len ?p1) (len ?p2)
                          ?L {} ?d = ({}, d')"
      and n: "cnt_i d' = cnt_i ?d"
      using quit_result by blast
    from False run q have "ndiff_testNum E dif c = Inr ({}, d')" by auto
    with False n show ?thesis by auto
  qed
qed

theorem any_mode_witness:
  "testNum_asserts (loaded rule_any ''1'' ''2'') rule_any
   \<and> (\<exists>dif'. ndiff_testNum exact_env (loaded rule_any ''1'' ''2'') rule_any = Inr ({eps_abs, eps_rel}, dif')
          \<and> cnt_i dif' = 1)"
proof -
  have f: "eps_any \<in> cmd rule_any" "eps_abs \<in> cmd rule_any" "eps_rel \<in> cmd rule_any"
    "eps_dig \<notin> cmd rule_any" "eps_ign \<notin> cmd rule_any" "eps_omit \<notin> cmd rule_any"
    "eps_equ \<notin> cmd rule_any" "eps_nofail \<notin> cmd rule_any"
    by (simp_all add: rule_any_def plain_rule_def)
  have ok: "testNum_asserts (loaded rule_any ''1'' ''2'') rule_any" by code_simp
  have v: "abs_violated exact_env (reg (loaded rule_any ''1'' ''2'')) (reg_n (loaded rule_any ''1'' ''2'')) rule_any
             (testNum_vals exact_env (loaded rule_any ''1'' ''2'') rule_any)"
     "rel_violated exact_env (reg (loaded rule_any ''1'' ''2'')) (reg_n (loaded rule_any ''1'' ''2'')) rule_any
             (testNum_vals exact_env (loaded rule_any ''1'' ''2'') rule_any)"
    by code_simp+
  have c0: "cnt_i (loaded rule_any ''1'' ''2'') = 0" by code_simp
  from any_mode_all_or_nothing[of rule_any "loaded rule_any ''1'' ''2''" exact_env, OF f(1-7) ok]
  show ?thesis using ok v f(8) c0 by simp
qed


section \<open>The scanner on concrete lines\<close>

text \<open>
  Claim C6. On the lines \<^verbatim>\<open>a\<close> and \<^verbatim>\<open>a\<close>, of length 1, the scanner returns 0
  without counting a difference and leaves both cursors at 2, one past the
  terminating NUL.
\<close>

theorem nextNum_end_of_line_cursor:
  "(let d = loaded rule_abs_half ''a'' ''a''
    in strlen (lhs_b d) = 1 \<and> strlen (rhs_b d) = 1 \<and> lhs_i d = 0 \<and> rhs_i d = 0
       \<and> (case ndiff_nextNum 4 exact_env d rule_abs_half of
             None \<Rightarrow> False
           | Some (col, d') \<Rightarrow>
               col = 0 \<and> cnt_i d' = cnt_i d \<and> lhs_i d' = 2 \<and> rhs_i d' = 2
               \<and> lhs_b d' = ''a'' @ [NUL] \<and> rhs_b d' = ''a'' @ [NUL]))"
  by code_simp

theorem nextNum_end_of_line_cursor_witness:
  "\<exists>d'. ndiff_nextNum 4 exact_env (loaded rule_abs_half ''a'' ''a'') rule_abs_half = Some (0, d')
         \<and> lhs_i d' = 2 \<and> rhs_i d' = 2 \<and> lhs_b d' = ''a'' @ [NUL] \<and> rhs_b d' = ''a'' @ [NUL]"
  using nextNum_end_of_line_cursor by (auto simp add: Let_def split: option.splits)


section \<open>Construction and reset\<close>

text \<open>
  Claim C10. Whatever hints \<open>n\<close> and \<open>r\<close> are passed, the new object has
  capacity \<open>max n 65536\<close>, two buffers that hold the empty string, a register
  count of \<open>r\<close> clamped to at least 99 and then to at most \<open>REG_MAX\<close>, and
  that many registers, all zero. Clearing any object \<open>used\<close>, whatever its
  buffers, registers, cursors and counters hold, gives capacity 65536, two
  buffers that hold the empty string, its register count clamped in the same
  way, and that many registers, all zero; a count that is already a clamped
  one, as every count set by the constructor is, stays as it is.
\<close>

theorem alloc_clear_postcondition:
  "(let dif = (ndiff_alloc REG_MAX lf rf cx n r :: ('d::zero, 'x) ndiff);
        clr = ndiff_clear REG_MAX (used :: ('d, 'x) ndiff);
        clr' = ndiff_clear REG_MAX (used\<lparr>reg_n := min (max r' 99) REG_MAX\<rparr>)
    in buf_n dif = max n 65536
       \<and> lhs_b dif = [NUL] \<and> rhs_b dif = [NUL]
       \<and> cstr (lhs_b dif) = [] \<and> cstr (rhs_b dif) = []
       \<and> reg_n dif = min (max r 99) REG_MAX
       \<and> reg dif = replicate (nat (reg_n dif)) 0
       \<and> buf_n clr = 65536
       \<and> lhs_b clr = [NUL] \<and> rhs_b clr = [NUL]
       \<and> cstr (lhs_b clr) = [] \<and> cstr (rhs_b clr) = []
       \<and> lhs_i clr = 0 \<and> rhs_i clr = 0
       \<and> reg_n clr = min (max (reg_n used) 99) REG_MAX
       \<and> reg clr = replicate (nat (reg_n clr)) 0
       \<and> reg_n clr' = min (max r' 99) REG_MAX
       \<and> reg clr' = replicate (nat (min (max r' 99) REG_MAX)) 0
       \<and> reg_n (ndiff_clear REG_MAX dif) = reg_n dif)"
  by (auto simp add: ndiff_alloc_def ndiff_clear_def ndiff_setup_def ndiff_teardown_def
      min_alloc_def min_regs_def cstr_def Let_def)

text \<open>
  Claim C5. \<^verbatim>\<open>ndiff_clear\<close> keeps the two streams, the context, \<^verbatim>\<open>blank\<close> and
  \<^verbatim>\<open>check\<close>, and resets the counters, the cursors and the buffers; but
  \<^verbatim>\<open>ndiff_teardown\<close> does not carry \<^verbatim>\<open>max_i\<close> over, so the cap is 0 afterwards:
  a cap of 25 set through \<^verbatim>\<open>ndiff_option\<close> is lost, while the other two
  options survive.
\<close>

theorem clear_loses_max_i:
  "max_i (ndiff_clear REG_MAX dif) = 0
   \<and> blank (ndiff_clear REG_MAX dif) = blank dif
   \<and> check (ndiff_clear REG_MAX dif) = check dif
   \<and> lhs_f (ndiff_clear REG_MAX dif) = lhs_f dif
   \<and> rhs_f (ndiff_clear REG_MAX dif) = rhs_f dif
   \<and> cxt (ndiff_clear REG_MAX dif) = cxt dif
   \<and> row_i (ndiff_clear REG_MAX dif) = 0 \<and> col_i (ndiff_clear REG_MAX dif) = 0
   \<and> cnt_i (ndiff_clear REG_MAX dif) = 0 \<and> num_i (ndiff_clear REG_MAX dif) = 0
   \<and> lhs_i (ndiff_clear REG_MAX dif) = 0 \<and> rhs_i (ndiff_clear REG_MAX dif) = 0
   \<and> lhs_b (ndiff_clear REG_MAX dif) = [NUL] \<and> rhs_b (ndiff_clear REG_MAX dif) = [NUL]
   \<and> (case ndiff_option
              (ndiff_alloc 200 \<lparr>pending = [], at_eof = False\<rparr> \<lparr>pending = [], at_eof = False\<rparr>
                 () 0 0 :: (rat, unit) ndiff)
              (Some 25) (Some 1) (Some 1) of
         Inl e \<Rightarrow> False
       | Inr d \<Rightarrow> max_i d = 25 \<and> max_i (ndiff_clear 200 d) = 0
                   \<and> blank (ndiff_clear 200 d) = 1 \<and> check (ndiff_clear 200 d) = 1)"
  by (simp add: ndiff_option_def ndiff_alloc_def ndiff_clear_def ndiff_setup_def
      ndiff_teardown_def Let_def)

section \<open>The scanner on identical lines\<close>

subsection \<open>Identical buffers\<close>











subsection \<open>The scanner reads the C strings only\<close>






















subsection \<open>The scanner moves forward on identical lines\<close>









subsection \<open>A line on which the scanner never returns\<close>






section \<open>Seeking a tag\<close>

lemma after_line_shorter: "s \<noteq> [] \<Longrightarrow> length (after_line s) < length s"
  by (simp add: after_line_def)

lemma takeWhile_split:
  "n \<le> length (takeWhile P xs) \<Longrightarrow> takeWhile P xs = take n xs @ takeWhile P (drop n xs)"
proof (induction xs arbitrary: n)
  case Nil
  then show ?case by simp
next
  case (Cons x xs)
  then show ?case by (cases n) (auto split: if_splits)
qed

lemma takeWhile_prefix_all:
  "n \<le> length (takeWhile P xs) \<Longrightarrow> \<forall>x\<in>set (take n xs). P x"
proof (induction xs arbitrary: n)
  case Nil
  then show ?case by simp
next
  case (Cons x xs)
  then show ?case by (cases n) (auto split: if_splits)
qed

lemma read_chunk_spec:
  "read_chunk s n =
     (if length (first_line s) < n
      then (if newline \<in> set s then RL_newline else RL_eof, first_line s, after_line s)
      else (RL_other, take n s, drop n s))"
proof (induction s n rule: read_chunk.induct)
  case (1 s)
  then show ?case by simp
next
  case (2 n)
  then show ?case by (simp add: first_line_def after_line_def)
next
  case (3 ch s n)
  then show ?case by (auto simp add: first_line_def after_line_def)
qed

lemma read_line_loop_spec:
  assumes "int (length acc) + 2 \<le> bn" and "length (pending f) < k"
  shows "\<exists>bn'. read_line_loop k f acc bn =
            Some (line_end (pending f), acc @ first_line (pending f),
                  \<lparr>pending = after_line (pending f),
                   at_eof = (at_eof f \<or> line_end (pending f) = RL_eof)\<rparr>, bn')
          \<and> bn \<le> bn'"
  using assms
proof (induction k arbitrary: f acc bn)
  case 0
  then show ?case by simp
next
  case (Suc k)
  let ?s = "pending f"
  let ?room = "nat (bn - int (length acc) - 1)"
  from Suc.prems have room: "1 \<le> ?room" by simp
  show ?case
  proof (cases "length (first_line ?s) < ?room")
    case True
    then show ?thesis
      by (auto simp add: readLine_def read_chunk_spec line_end_def)
  next
    case False
    then have le: "?room \<le> length (first_line ?s)" by simp
    have lens: "length (first_line ?s) \<le> length ?s"
      by (simp add: first_line_def length_takeWhile_le)
    let ?f' = "\<lparr>pending = drop ?room ?s, at_eof = at_eof f\<rparr>"
    let ?acc' = "acc @ take ?room ?s"
    have step: "read_line_loop (Suc k) f acc bn = read_line_loop k ?f' ?acc' (2 * bn)"
      using False Suc.prems by (simp add: readLine_def read_chunk_spec)
    have a: "int (length ?acc') + 2 \<le> 2 * bn"
      using Suc.prems le lens by simp
    have b: "length (pending ?f') < k"
      using Suc.prems room le lens by simp
    have nonl: "\<forall>x\<in>set (take ?room ?s). x \<noteq> newline"
      using takeWhile_prefix_all[of ?room "\<lambda>ch. ch \<noteq> newline" ?s] le
      by (simp add: first_line_def)
    have fl: "first_line ?s = take ?room ?s @ first_line (drop ?room ?s)"
      using takeWhile_split[of ?room "\<lambda>ch. ch \<noteq> newline" ?s] le
      by (simp add: first_line_def)
    have "set ?s = set (take ?room ?s) \<union> set (drop ?room ?s)"
      by (metis append_take_drop_id set_append)
    with nonl have nl: "newline \<in> set (drop ?room ?s) \<longleftrightarrow> newline \<in> set ?s"
      by auto
    have al: "after_line (drop ?room ?s) = after_line ?s"
    proof -
      have "length (first_line ?s) = ?room + length (first_line (drop ?room ?s))"
        using fl le lens by (metis length_append length_take min.absorb2 le_trans)
      then show ?thesis by (simp add: after_line_def add.commute)
    qed
    from Suc.IH[OF a b] obtain bn' where
      r: "read_line_loop k ?f' ?acc' (2 * bn) =
            Some (line_end (pending ?f'), ?acc' @ first_line (pending ?f'),
                  \<lparr>pending = after_line (pending ?f'),
                   at_eof = (at_eof ?f' \<or> line_end (pending ?f') = RL_eof)\<rparr>, bn')"
      and g: "2 * bn \<le> bn'" by blast
    from r g step fl nl al Suc.prems show ?thesis
      by (simp add: line_end_def)
  qed
qed


lemma no_newline_after_line:
  assumes "newline \<notin> set s"
  shows "after_line s = []"
proof -
  from assms have same: "takeWhile (\<lambda>ch. ch \<noteq> newline) s = s"
    by (induction s) auto
  show ?thesis unfolding after_line_def first_line_def same by simp
qed

lemma cstr_before_NUL: "cstr (xs @ NUL # t) = cstr xs"
  by (induction xs) (simp_all add: cstr_def)

lemma stored_line:
  "memcpy b (txt @ [NUL]) (length txt + 1) = txt @ NUL # drop (Suc (length txt)) b"
  by (simp add: memcpy_def)

lemma poke0_starts: "prefix [NUL] (poke0 b)"
  by (cases b) (simp_all add: poke0_def)

lemma goto_side_spec:
  assumes "2 \<le> bn" and "c \<noteq> RL_eof"
    and "length (pending f) + 2 \<le> k" and "length (pending f) < fuel"
  shows "\<exists>c' b' f' bn'. goto_side k fuel tg c f b bn i =
            Some (c', b', f', bn', i + int (lines_consumed tg (pending f)))
          \<and> prefix (line_found tg (pending f) @ [NUL]) b'
          \<and> pending f' = stream_left tg (pending f) \<and> bn \<le> bn'"
  using assms
proof (induction k arbitrary: f b bn i c)
  case 0
  then show ?case by simp
next
  case (Suc k)
  let ?s = "pending f"
  let ?f1 = "\<lparr>pending = after_line ?s, at_eof = (at_eof f \<or> line_end ?s = RL_eof)\<rparr>"
  from read_line_loop_spec[of "[]" bn f fuel] Suc.prems obtain bn1 where
    rd: "read_line_loop fuel f [] bn = Some (line_end ?s, first_line ?s, ?f1, bn1)"
    and g: "bn \<le> bn1" by auto
  let ?b1 = "memcpy (poke0 b) (first_line ?s @ [NUL]) (length (first_line ?s) + 1)"
  have cs: "cstr ?b1 = cstr (first_line ?s)"
    by (simp only: stored_line cstr_before_NUL)
  have pf: "prefix (first_line ?s @ [NUL]) ?b1"
    by (simp only: stored_line) simp
  show ?case
  proof (cases "strstr (cstr (first_line ?s)) tg")
    case True
    then have "seek_tag tg ?s = (1, first_line ?s, after_line ?s)"
      by (simp add: seek_tag.simps)
    with True rd Suc.prems(2) g cs pf show ?thesis
      by (simp add: lines_consumed_def line_found_def stream_left_def Let_def)
  next
    case nomatch: False
    show ?thesis
    proof (cases "newline \<in> set ?s")
      case False
      with nomatch have sk: "seek_tag tg ?s = (1, [], [])"
        by (simp add: seek_tag.simps)
      from Suc.prems(3) obtain k' where k: "k = Suc k'" by (cases k) auto
      from False have le: "line_end ?s = RL_eof" by (simp add: line_end_def)
      from False have al: "after_line ?s = []" by (rule no_newline_after_line)
      from nomatch rd Suc.prems(2) k le al sk g cs poke0_starts[of ?b1] show ?thesis
        by (simp add: lines_consumed_def line_found_def stream_left_def Let_def)
    next
      case True
      then have ne: "?s \<noteq> []" by auto
      from True have le: "line_end ?s = RL_newline" by (simp add: line_end_def)
      from True nomatch have sk: "seek_tag tg ?s =
          (case seek_tag tg (after_line ?s) of (n, l, r) \<Rightarrow> (Suc n, l, r))"
        by (subst seek_tag.simps) simp
      have step: "goto_side (Suc k) fuel tg c f b bn i =
                    goto_side k fuel tg RL_newline ?f1 ?b1 bn1 (i + 1)"
        using nomatch rd Suc.prems(2) le cs by (simp add: Let_def)
      have sh: "length (after_line ?s) < length ?s" using ne by (rule after_line_shorter)
      have "\<exists>c' b' f' bn'. goto_side k fuel tg RL_newline ?f1 ?b1 bn1 (i + 1) =
              Some (c', b', f', bn', (i + 1) + int (lines_consumed tg (pending ?f1)))
            \<and> prefix (line_found tg (pending ?f1) @ [NUL]) b'
            \<and> pending f' = stream_left tg (pending ?f1) \<and> bn1 \<le> bn'"
        using Suc.prems g sh by (intro Suc.IH) simp_all
      then show ?thesis
        using step sk g
        by (auto simp add: lines_consumed_def line_found_def stream_left_def split: prod.splits)
    qed
  qed
qed

text \<open>
  Claim C8. With a capacity of at least 2 (the constructor gives 65536) and
  fuel beyond the lengths of the two streams, \<^verbatim>\<open>ndiff_gotoLine\<close> returns; each
  side has been advanced on its own, line by line, to the first line that
  contains the tag or to the end of its file, whatever the other side holds;
  and the row has advanced by the smaller of the two numbers of lines read.
\<close>

theorem gotoLine_row_advance:
  assumes cap: "2 \<le> buf_n dif"
    and fuel: "length (pending (lhs_f dif)) + 2 \<le> fuel" "length (pending (rhs_f dif)) + 2 \<le> fuel"
  shows "\<exists>r dif'. ndiff_gotoLine fuel dif c = Some (r, dif')
           \<and> row_i dif' = row_i dif
                + int (min (lines_consumed (cstr (tag c)) (pending (lhs_f dif)))
                           (lines_consumed (cstr (tag c)) (pending (rhs_f dif))))
           \<and> prefix (line_found (cstr (tag c)) (pending (lhs_f dif)) @ [NUL]) (lhs_b dif')
           \<and> prefix (line_found (cstr (tag c)) (pending (rhs_f dif)) @ [NUL]) (rhs_b dif')
           \<and> pending (lhs_f dif') = stream_left (cstr (tag c)) (pending (lhs_f dif))
           \<and> pending (rhs_f dif') = stream_left (cstr (tag c)) (pending (rhs_f dif))"
proof -
  let ?tg = "cstr (tag c)"
  let ?l = "pending (lhs_f dif)"
  let ?r = "pending (rhs_f dif)"
  from goto_side_spec[of "buf_n dif" RL_other "lhs_f dif" fuel fuel ?tg "lhs_b dif" 0] cap fuel
  obtain c1 lb lf bn1 where
    s1: "goto_side fuel fuel ?tg RL_other (lhs_f dif) (lhs_b dif) (buf_n dif) 0 =
           Some (c1, lb, lf, bn1, int (lines_consumed ?tg ?l))"
    and b1: "prefix (line_found ?tg ?l @ [NUL]) lb"
    and p1: "pending lf = stream_left ?tg ?l" and g1: "buf_n dif \<le> bn1" by auto
  from goto_side_spec[of bn1 RL_other "rhs_f dif" fuel fuel ?tg "rhs_b dif" 0] g1 cap fuel
  obtain c2 rb rf bn2 where
    s2: "goto_side fuel fuel ?tg RL_other (rhs_f dif) (rhs_b dif) bn1 0 =
           Some (c2, rb, rf, bn2, int (lines_consumed ?tg ?r))"
    and b2: "prefix (line_found ?tg ?r @ [NUL]) rb"
    and p2: "pending rf = stream_left ?tg ?r" by auto
  from s1 s2 p1 p2 b1 b2 show ?thesis
    by (simp add: ndiff_gotoLine_def min_def)
qed


theorem gotoLine_row_advance_witness:
  "2 \<le> buf_n two_streams
   \<and> length (pending (lhs_f two_streams)) + 2 \<le> 20
   \<and> length (pending (rhs_f two_streams)) + 2 \<le> 20
   \<and> lines_consumed ''x'' (pending (lhs_f two_streams)) = 2
   \<and> lines_consumed ''x'' (pending (rhs_f two_streams)) = 1
   \<and> (\<exists>r dif'. ndiff_gotoLine 20 two_streams rule_goto_x = Some (r, dif')
          \<and> row_i dif' = 1
          \<and> prefix (''axb'' @ [NUL]) (lhs_b dif') \<and> prefix (''axb'' @ [NUL]) (rhs_b dif')
          \<and> pending (lhs_f dif') = ''def'' \<and> pending (rhs_f dif') = ''q'')"
proof -
  have h1: "2 \<le> buf_n two_streams" by code_simp
  have h2: "length (pending (lhs_f two_streams)) + 2 \<le> 20" by code_simp
  have h3: "length (pending (rhs_f two_streams)) + 2 \<le> 20" by code_simp
  have tg: "cstr (tag rule_goto_x) = ''x''" by code_simp
  have r0: "row_i two_streams = 0" by code_simp
  have l: "lines_consumed ''x'' (pending (lhs_f two_streams)) = 2"
    "line_found ''x'' (pending (lhs_f two_streams)) = ''axb''"
    "stream_left ''x'' (pending (lhs_f two_streams)) = ''def''"
    by code_simp+
  have r: "lines_consumed ''x'' (pending (rhs_f two_streams)) = 1"
    "line_found ''x'' (pending (rhs_f two_streams)) = ''axb''"
    "stream_left ''x'' (pending (rhs_f two_streams)) = ''q''"
    by code_simp+
  from gotoLine_row_advance[OF h1 h2 h3, of rule_goto_x]
  show ?thesis using h1 h2 h3 l r by (simp add: tg r0)
qed

end
